theory Spec2Isabelle
  imports Complex_Main
begin

section \<open>Numbers and errors\<close>

text \<open>
  The library computes with Python numbers: integers and floats mixed freely. They are
  idealised here as real numbers: \<open>math.sqrt\<close>, \<open>math.cos\<close>, \<open>math.sin\<close> and
  \<open>math.atan2\<close> are the mathematical functions, \<open>int(v)\<close> truncates towards zero and
  \<open>v // 2\<close> is the floor of the quotient. Rounding of floats is not part of the model.

  Every Python exception the modelled code can raise is a value of \<open>error\<close>, and a
  function that can raise returns \<open>error + 'a\<close> with \<open>Inl\<close> for the exception.
\<close>

datatype error = AttributeError | KeyError | ValueError | ZeroDivisionError

definition py_int :: "real \<Rightarrow> real" where
  "py_int v = (if 0 \<le> v then of_int \<lfloor>v\<rfloor> else of_int \<lceil>v\<rceil>)"

definition floordiv :: "real \<Rightarrow> real \<Rightarrow> real" where
  "floordiv a b = of_int \<lfloor>a / b\<rfloor>"

definition atan2 :: "real \<Rightarrow> real \<Rightarrow> real" where
  "atan2 b a =
     (if 0 < a then arctan (b / a)
      else if a < 0 then (if 0 \<le> b then arctan (b / a) + pi else arctan (b / a) - pi)
      else if 0 < b then pi / 2
      else if b < 0 then - (pi / 2)
      else 0)"

text \<open>\<open>min(t)\<close> and \<open>max(t)\<close> of a non-empty tuple; the caller checks that it is not empty.\<close>

definition py_min :: "real list \<Rightarrow> real" where
  "py_min vs = fold min (tl vs) (hd vs)"

definition py_max :: "real list \<Rightarrow> real" where
  "py_max vs = fold max (tl vs) (hd vs)"

section \<open>Assets and display objects\<close>

text \<open>
  The asset classes a sprite can be built from. Only what the sprite code reads is kept:
  \<open>width\<close> and \<open>height\<close> of a rectangle, an image or a text block, the radius of a
  circle, the half axes of an ellipse, the path of a polygon, the end point of a line.
\<close>

datatype asset =
    ImageAsset real real
  | RectangleAsset real real
  | CircleAsset real
  | EllipseAsset real real
  | PolygonAsset "(real \<times> real) list"
  | LineAsset real real
  | TextAsset string real real

text \<open>\<open>type(a) is CircleAsset\<close>\<close>

fun is_CircleAsset :: "asset \<Rightarrow> bool" where
  "is_CircleAsset (CircleAsset r) = True"
| "is_CircleAsset (ImageAsset w h) = False"
| "is_CircleAsset (RectangleAsset w h) = False"
| "is_CircleAsset (EllipseAsset hw hh) = False"
| "is_CircleAsset (PolygonAsset p) = False"
| "is_CircleAsset (LineAsset dx dy) = False"
| "is_CircleAsset (TextAsset t w h) = False"

text \<open>
  \<open>Sprite.GFX\<close> is the display object of the renderer (a PIXI sprite or text), which is
  not part of the sources. The sprite code reads and writes its attributes \<open>position\<close>,
  \<open>width\<close>, \<open>height\<close>, \<open>anchor\<close>, \<open>scale\<close>, \<open>rotation\<close> and \<open>visible\<close>, and guards the
  reads of \<open>anchor\<close>, \<open>scale\<close> and \<open>rotation\<close> with \<open>try\<close>/\<open>except\<close>: those three may be
  missing, which is \<open>None\<close> here.
\<close>

record gfx =
  position :: "real \<times> real"
  gwidth :: real
  gheight :: real
  anchor :: "(real \<times> real) option"
  gscale :: "(real \<times> real) option"
  grotation :: "real option"
  visible :: bool

text \<open>
  Modelled from the spec: the display object that the renderer's \<open>GFX_Sprite\<close> creates for
  a texture of the given size (section 6, \<open>createDisplayObject\<close>): at the origin, anchor
  \<open>(0,0)\<close>, scale 1, no rotation.
\<close>

definition GFX_Sprite :: "real \<Rightarrow> real \<Rightarrow> gfx" where
  "GFX_Sprite w h =
     \<lparr>position = (0, 0), gwidth = w, gheight = h, anchor = Some (0, 0),
      gscale = Some (1, 1), grotation = Some 0, visible = True\<rparr>"

section \<open>Sprites\<close>

text \<open>
  The attributes of a \<open>Sprite\<close> object. \<open>sclass\<close> is \<open>type(obj)\<close>, the name of the sprite's
  class, under which \<open>App\<close> files it.
\<close>

record sprite =
  sclass :: string
  asset :: asset
  edgedef :: asset
  GFX :: gfx
  xmin :: real
  xmax :: real
  ymin :: real
  ymax :: real
  extentsdirty :: bool
  basevertices :: "(real \<times> real) list"
  absolutevertices :: "(real \<times> real) list"

subsection \<open>Properties: getters\<close>

definition get_width :: "sprite \<Rightarrow> real" where
  "get_width s = gwidth (GFX s)"

definition get_height :: "sprite \<Rightarrow> real" where
  "get_height s = gheight (GFX s)"

definition get_x :: "sprite \<Rightarrow> real" where
  "get_x s = fst (position (GFX s))"

definition get_y :: "sprite \<Rightarrow> real" where
  "get_y s = snd (position (GFX s))"

definition get_position :: "sprite \<Rightarrow> real \<times> real" where
  "get_position s = (fst (position (GFX s)), snd (position (GFX s)))"

definition get_fxcenter :: "sprite \<Rightarrow> real" where
  "get_fxcenter s = (case anchor (GFX s) of Some a \<Rightarrow> fst a | None \<Rightarrow> 0)"

definition get_fycenter :: "sprite \<Rightarrow> real" where
  "get_fycenter s = (case anchor (GFX s) of Some a \<Rightarrow> snd a | None \<Rightarrow> 0)"

definition get_center :: "sprite \<Rightarrow> real \<times> real" where
  "get_center s = (case anchor (GFX s) of Some a \<Rightarrow> (fst a, snd a) | None \<Rightarrow> (0, 0))"

definition get_scale :: "sprite \<Rightarrow> real" where
  "get_scale s = (case gscale (GFX s) of Some sc \<Rightarrow> fst sc | None \<Rightarrow> 1)"

definition get_rotation :: "sprite \<Rightarrow> real" where
  "get_rotation s = (case grotation (GFX s) of Some r \<Rightarrow> - r | None \<Rightarrow> 0)"

subsection \<open>Properties: setters\<close>

definition set_width :: "sprite \<Rightarrow> real \<Rightarrow> sprite" where
  "set_width s v = s\<lparr>GFX := (GFX s)\<lparr>gwidth := v\<rparr>, extentsdirty := True\<rparr>"

definition set_height :: "sprite \<Rightarrow> real \<Rightarrow> sprite" where
  "set_height s v = s\<lparr>GFX := (GFX s)\<lparr>gheight := v\<rparr>, extentsdirty := True\<rparr>"

definition set_x :: "sprite \<Rightarrow> real \<Rightarrow> sprite" where
  "set_x s v =
     (let deltax = v - fst (position (GFX s))
      in s\<lparr>xmax := xmax s + deltax, xmin := xmin s + deltax,
             GFX := (GFX s)\<lparr>position := (v, snd (position (GFX s)))\<rparr>\<rparr>)"

definition set_y :: "sprite \<Rightarrow> real \<Rightarrow> sprite" where
  "set_y s v =
     (let deltay = v - snd (position (GFX s))
      in s\<lparr>ymax := ymax s + deltay, ymin := ymin s + deltay,
             GFX := (GFX s)\<lparr>position := (fst (position (GFX s)), v)\<rparr>\<rparr>)"

definition set_position :: "sprite \<Rightarrow> real \<times> real \<Rightarrow> sprite" where
  "set_position s v = set_y (set_x s (fst v)) (snd v)"

text \<open>
  The anchor setters run inside \<open>try\<close>/\<open>except: pass\<close>: on a display object without an
  anchor the assignment raises, nothing is stored and the flag is not touched.
\<close>

definition set_fxcenter :: "sprite \<Rightarrow> real \<Rightarrow> sprite" where
  "set_fxcenter s v =
     (case anchor (GFX s) of
        Some a \<Rightarrow> s\<lparr>GFX := (GFX s)\<lparr>anchor := Some (v, snd a)\<rparr>, extentsdirty := True\<rparr>
      | None \<Rightarrow> s)"

definition set_fycenter :: "sprite \<Rightarrow> real \<Rightarrow> sprite" where
  "set_fycenter s v =
     (case anchor (GFX s) of
        Some a \<Rightarrow> s\<lparr>GFX := (GFX s)\<lparr>anchor := Some (fst a, v)\<rparr>, extentsdirty := True\<rparr>
      | None \<Rightarrow> s)"

definition set_center :: "sprite \<Rightarrow> real \<times> real \<Rightarrow> sprite" where
  "set_center s v =
     (case anchor (GFX s) of
        Some a \<Rightarrow> s\<lparr>GFX := (GFX s)\<lparr>anchor := Some (fst v, snd v)\<rparr>, extentsdirty := True\<rparr>
      | None \<Rightarrow> s)"

text \<open>The scale setter has no \<open>try\<close>: without a \<open>scale\<close> attribute it raises.\<close>

definition set_scale :: "sprite \<Rightarrow> real \<Rightarrow> error + sprite" where
  "set_scale s v =
     (case gscale (GFX s) of
        Some sc \<Rightarrow> Inr (s\<lparr>GFX := (GFX s)\<lparr>gscale := Some (v, v)\<rparr>, extentsdirty := True\<rparr>)
      | None \<Rightarrow> Inl AttributeError)"

text \<open>
  The rotation setter stores \<open>-value\<close> and marks the extents dirty under \<open>if value:\<close>,
  that is, when the value assigned is not zero.
\<close>

definition set_rotation :: "sprite \<Rightarrow> real \<Rightarrow> sprite" where
  "set_rotation s v =
     (let s' = s\<lparr>GFX := (GFX s)\<lparr>grotation := Some (- v)\<rparr>\<rparr>
      in if v \<noteq> 0 then s'\<lparr>extentsdirty := True\<rparr> else s')"

subsection \<open>Vertices and extents\<close>

definition corners :: "real \<Rightarrow> real \<Rightarrow> (real \<times> real) list" where
  "corners w h = [(0, 0), (0, h), (w, h), (w, 0)]"

text \<open>\<open>Sprite._createBaseVertices\<close>: a circle falls through every branch and keeps \<open>[]\<close>.\<close>

fun createBaseVertices :: "sprite \<Rightarrow> sprite" where
  "createBaseVertices s =
     s\<lparr>basevertices :=
         (case edgedef s of
            RectangleAsset w h \<Rightarrow> corners w h
          | ImageAsset w h \<Rightarrow> corners w h
          | TextAsset t w h \<Rightarrow> corners w h
          | PolygonAsset path \<Rightarrow> butlast path
          | LineAsset dx dy \<Rightarrow> [(0, 0), (dx, dy)]
          | EllipseAsset hw hh \<Rightarrow> corners (hw * 2) (hh * 2)
          | CircleAsset r \<Rightarrow> [])\<rparr>"

text \<open>\<open>Sprite._xformVertices\<close>: dividing by a zero scale raises.\<close>

definition xformVertices :: "sprite \<Rightarrow> error + sprite" where
  "xformVertices s =
     (if get_scale s = 0 then Inl ZeroDivisionError
      else
        let x = get_width s * get_fxcenter s / get_scale s;
            y = get_height s * get_fycenter s / get_scale s;
            crsc = (if get_scale s \<noteq> 1
                    then map (\<lambda>(xp, yp). ((xp - x) * get_scale s, (yp - y) * get_scale s))
                           (basevertices s)
                    else map (\<lambda>(xp, yp). (xp - x, yp - y)) (basevertices s));
            c = cos (get_rotation s);
            sn = sin (get_rotation s)
        in Inr (s\<lparr>absolutevertices :=
                   map (\<lambda>(x, y). (get_x s + x * c + y * sn, get_y s + - x * sn + y * c)) crsc\<rparr>))"

text \<open>
  \<open>Sprite._setExtents\<close>. The branch is chosen by the type of \<open>asset\<close>. With no vertex,
  \<open>x, y = zip(*[])\<close> has nothing to unpack and raises \<open>ValueError\<close>.

  The circle branch truncates: \<open>int(L*math.cos(th))\<close> and \<open>int(L*math.sin(th))\<close>. Here
  the product truncated is the exact one. Python truncates the float product, and where
  the exact product is a whole number (as with the default anchor, where it is the
  radius) the float can fall just below it: for the radius 7 the float of \<open>L*sin(th)\<close>
  is \<open>-6.999999999999999\<close>, \<open>int\<close> gives \<open>-6\<close> and the box of the code lies one pixel
  higher than the box computed here. So a refresh of a dirty circle is described here up
  to one pixel on each axis. The refresh of any other asset, the refresh of a clean
  sprite, and \<open>collidingWith\<close> on sprites whose extents are clean do not truncate.
\<close>

definition setExtents :: "sprite \<Rightarrow> error + sprite" where
  "setExtents s =
     (if extentsdirty s then
        (if is_CircleAsset (asset s) then
           let th = atan2 (get_fycenter s - 1 / 2) (1 / 2 - get_fxcenter s) + get_rotation s;
               D = get_width s;
               L = sqrt ((get_fxcenter s - 1 / 2) ^ 2 + (get_fycenter s - 1 / 2) ^ 2) * D;
               xmin' = get_x s + py_int (L * cos th) - floordiv D 2;
               ymin' = get_y s - py_int (L * sin th) - floordiv D 2
           in Inr (s\<lparr>xmin := xmin', ymin := ymin', xmax := xmin' + D, ymax := ymin' + D,
                      extentsdirty := False\<rparr>)
         else
           (case xformVertices s of
              Inl e \<Rightarrow> Inl e
            | Inr s1 \<Rightarrow>
                (if absolutevertices s1 = [] then Inl ValueError
                 else
                   let x = map fst (absolutevertices s1);
                       y = map snd (absolutevertices s1)
                   in Inr (s1\<lparr>xmin := py_min x, xmax := py_max x,
                               ymin := py_min y, ymax := py_max y,
                               extentsdirty := False\<rparr>))))
      else Inr s)"

text \<open>
  \<open>Sprite.__init__\<close> up to the registration with \<open>App\<close>: \<open>cls\<close> is the sprite's class, \<open>g\<close>
  the display object the renderer made for the asset, \<open>ed\<close> the optional \<open>edgedef\<close>.
\<close>

definition Sprite_init ::
  "string \<Rightarrow> gfx \<Rightarrow> asset \<Rightarrow> real \<times> real \<Rightarrow> asset option \<Rightarrow> error + sprite" where
  "Sprite_init cls g a pos ed =
     (let s0 = \<lparr>sclass = cls, asset = a,
                edgedef = (case ed of None \<Rightarrow> a | Some e \<Rightarrow> e),
                GFX = g, xmin = 0, xmax = 0, ymin = 0, ymax = 0,
                extentsdirty = True, basevertices = [], absolutevertices = []\<rparr>;
          s1 = set_position s0 pos;
          s2 = s1\<lparr>extentsdirty := True\<rparr>;
          s3 = createBaseVertices s2
      in setExtents s3)"

subsection \<open>Collision\<close>

text \<open>
  Sprites are objects: two variables can name the same sprite, and \<open>collidingWith\<close> asks
  \<open>self is obj\<close>. A reference is a number and the heap gives the sprite behind it.
\<close>

type_synonym ref = nat

type_synonym heap = "ref \<Rightarrow> sprite"

text \<open>Which of the three careful tests a call of \<open>collidingWith\<close> ran.\<close>

datatype narrow = CircleWithCircle | CircleWithPoly | PolyWithPoly

definition collidingCircleWithPoly :: "sprite \<Rightarrow> sprite \<Rightarrow> bool" where
  "collidingCircleWithPoly circ poly = True"

definition collidingPolyWithPoly :: "sprite \<Rightarrow> sprite \<Rightarrow> bool" where
  "collidingPolyWithPoly self obj = True"

text \<open>
  \<open>Sprite.collidingWith\<close>: the answer, the careful test that produced it (\<open>None\<close> when no
  such test ran) and the heap with the refreshed extents of both sprites.
\<close>

definition collidingWith :: "heap \<Rightarrow> ref \<Rightarrow> ref \<Rightarrow> error + (bool \<times> narrow option \<times> heap)" where
  "collidingWith h self obj =
     (if self = obj then Inr (False, None, h)
      else
        (case setExtents (h self) of
           Inl e \<Rightarrow> Inl e
         | Inr s \<Rightarrow>
             (case setExtents ((h(self := s)) obj) of
                Inl e \<Rightarrow> Inl e
              | Inr ob \<Rightarrow>
                  (let h' = (h(self := s))(obj := ob) in
                   if xmin s > xmax ob \<or> xmax s < xmin ob \<or> ymin s > ymax ob \<or> ymax s < ymin ob
                   then Inr (False, None, h')
                   else if is_CircleAsset (asset s) then
                     (if is_CircleAsset (asset ob) then
                        let sx = (xmin s + xmax s) / 2;
                            sy = (ymin s + ymax s) / 2;
                            ox = (xmin ob + xmax ob) / 2;
                            oy = (ymin ob + ymax ob) / 2;
                            d = sqrt ((sx - ox) ^ 2 + (sy - oy) ^ 2)
                        in Inr (d \<le> get_width s / 2 + get_width ob / 2, Some CircleWithCircle, h')
                      else Inr (collidingCircleWithPoly s ob, Some CircleWithPoly, h'))
                   else
                     (if is_CircleAsset (asset ob)
                      then Inr (collidingCircleWithPoly ob s, Some CircleWithPoly, h')
                      else Inr (collidingPolyWithPoly s ob, Some PolyWithPoly, h'))))))"

section \<open>Events\<close>

text \<open>
  The system event handed to \<open>App._keyEvent\<close>: its \<open>type\<close> (\<open>keydown\<close>, \<open>keyup\<close>,
  \<open>keypress\<close>) and its numeric \<open>keyCode\<close>.
\<close>

record hwevent =
  hw_type :: string
  keyCode :: int

text \<open>\<open>KeyEvent.keys\<close>: key code to key name.\<close>

definition KeyEvent_keys :: "int \<Rightarrow> string option" where
  "KeyEvent_keys = map_of
     [(8, ''backspace''), (9, ''tab''), (13, ''enter''), (16, ''shift''), (17, ''ctrl''),
      (18, ''alt''), (19, ''pause/break''), (20, ''caps lock''), (27, ''escape''),
      (32, ''space''), (33, ''page up''), (34, ''page down''), (35, ''end''), (36, ''home''),
      (37, ''left arrow''), (38, ''up arrow''), (39, ''right arrow''), (40, ''down arrow''),
      (45, ''insert''), (46, ''delete''),
      (48, ''0''), (49, ''1''), (50, ''2''), (51, ''3''), (52, ''4''), (53, ''5''),
      (54, ''6''), (55, ''7''), (56, ''8''), (57, ''9''),
      (65, ''a''), (66, ''b''), (67, ''c''), (68, ''d''), (69, ''e''), (70, ''f''),
      (71, ''g''), (72, ''h''), (73, ''i''), (74, ''j''), (75, ''k''), (76, ''l''),
      (77, ''m''), (78, ''n''), (79, ''o''), (80, ''p''), (81, ''q''), (82, ''r''),
      (83, ''s''), (84, ''t''), (85, ''u''), (86, ''v''), (87, ''w''), (88, ''x''),
      (89, ''y''), (90, ''z''),
      (91, ''left window key''), (92, ''right window key''), (93, ''select key''),
      (96, ''numpad 0''), (97, ''numpad 1''), (98, ''numpad 2''), (99, ''numpad 3''),
      (100, ''numpad 4''), (101, ''numpad 5''), (102, ''numpad 6''), (103, ''numpad 7''),
      (104, ''numpad 8''), (105, ''numpad 9''),
      (106, ''multiply''), (107, ''add''), (109, ''subtract''), (110, ''decimal point''),
      (111, ''divide''),
      (112, ''f1''), (113, ''f2''), (114, ''f3''), (115, ''f4''), (116, ''f5''), (117, ''f6''),
      (118, ''f7''), (119, ''f8''), (120, ''f9''), (121, ''f10''), (122, ''f11''),
      (123, ''f12''),
      (144, ''num lock''), (145, ''scroll lock''), (186, ''semicolon''),
      (187, ''equal sign''), (188, ''comma''), (189, ''dash''), (190, ''period''),
      (191, ''forward slash''), (192, ''grave accent''), (219, ''open bracket''),
      (220, ''back slash''), (221, ''close bracket''), (222, ''single quote'')]"

text \<open>The typed event a callback receives; \<open>consumed\<close> is the flag a callback may set.\<close>

record key_event =
  ev_type :: string
  consumed :: bool
  keynum :: int
  ev_key :: string

text \<open>\<open>KeyEvent.__init__\<close>: \<open>self.keys[hwevent.keyCode]\<close> raises on a code outside the table.\<close>

definition KeyEvent_init :: "hwevent \<Rightarrow> error + key_event" where
  "KeyEvent_init hw =
     (case KeyEvent_keys (keyCode hw) of
        None \<Rightarrow> Inl KeyError
      | Some name \<Rightarrow>
          Inr \<lparr>ev_type = hw_type hw, consumed = False, keynum = keyCode hw, ev_key = name\<rparr>)"

text \<open>
  A callback is known to \<open>App\<close> by its identity, a number here. What it does to the event
  it receives is given by an environment; beyond the event a callback is not followed.
\<close>

type_synonym callback = nat

type_synonym callbacks = "callback \<Rightarrow> key_event \<Rightarrow> key_event"

text \<open>
  The keys of \<open>App._eventdict\<close>: the pair \<open>(eventtype, key)\<close> for a keyboard subscription,
  where \<open>key\<close> is a key name, \<open>'*'\<close>, or the number \<open>0\<close> that \<open>_keyEvent\<close> looks up for a
  code outside the table; the bare \<open>eventtype\<close> for a mouse subscription.
\<close>

datatype keysel = KeyName string | KeyNum int

datatype evkey = KeyEvt string keysel | MouseEvt string

text \<open>
  \<open>App._routeEvent\<close>, on the list already reversed: the event as the callbacks left it
  and the callbacks invoked, in order.
\<close>

fun route :: "callbacks \<Rightarrow> key_event \<Rightarrow> callback list \<Rightarrow> key_event \<times> callback list" where
  "route env evt [] = (evt, [])"
| "route env evt (c # cs) =
     (if \<not> consumed evt
      then (let r = route env (env c evt) cs in (fst r, c # snd r))
      else route env evt cs)"

definition routeEvent :: "callbacks \<Rightarrow> key_event \<Rightarrow> callback list \<Rightarrow> key_event \<times> callback list" where
  "routeEvent env evt evtlist = route env evt (rev evtlist)"

section \<open>The application\<close>

text \<open>
  \<open>App._win\<close>. The class \<open>GFX_Window\<close> of \<open>sysdeps.py\<close> defines \<open>bind\<close>, \<open>add\<close>, \<open>remove\<close>,
  \<open>animate\<close> and \<open>destroy\<close>, and no \<open>unbind\<close>; the window classes of the other platforms
  are imported from modules outside the sources. Whether the window object has an
  \<open>unbind\<close> method is therefore a field.
\<close>

record window =
  win_width :: real
  win_height :: real
  has_unbind :: bool

definition GFX_Window :: "real \<Rightarrow> real \<Rightarrow> window" where
  "GFX_Window w h = \<lparr>win_width = w, win_height = h, has_unbind = False\<rparr>"

text \<open>The class attributes of \<open>App\<close>.\<close>

record app =
  spritelist :: "ref list"
  eventdict :: "evkey \<rightharpoonup> callback list"
  spritesdict :: "string \<rightharpoonup> ref list"
  spritesadded :: bool
  win :: "window option"

definition initial_app :: app where
  "initial_app =
     \<lparr>spritelist = [], eventdict = Map.empty, spritesdict = Map.empty,
      spritesadded = False, win = None\<rparr>"

text \<open>\<open>dict.get(k, [])\<close>\<close>

definition get_list :: "('k \<rightharpoonup> 'v list) \<Rightarrow> 'k \<Rightarrow> 'v list" where
  "get_list d k = (case d k of Some l \<Rightarrow> l | None \<Rightarrow> [])"

text \<open>\<open>list.remove(v)\<close>: the first occurrence goes, \<open>ValueError\<close> when there is none.\<close>

definition list_remove :: "'a list \<Rightarrow> 'a \<Rightarrow> error + 'a list" where
  "list_remove l v = (if v \<in> set l then Inr (remove1 v l) else Inl ValueError)"

definition getSpritesbyClass :: "app \<Rightarrow> string \<Rightarrow> ref list" where
  "getSpritesbyClass a cls = get_list (spritesdict a) cls"

text \<open>\<open>App._add\<close>; handing the display object to the window is the renderer's business.\<close>

definition App_add :: "heap \<Rightarrow> app \<Rightarrow> ref \<Rightarrow> app" where
  "App_add h a obj =
     a\<lparr>spritelist := spritelist a @ [obj],
       spritesdict := (spritesdict a)(sclass (h obj) \<mapsto>
                         get_list (spritesdict a) (sclass (h obj)) @ [obj])\<rparr>"

definition App_remove :: "heap \<Rightarrow> app \<Rightarrow> ref \<Rightarrow> error + app" where
  "App_remove h a obj =
     (case list_remove (spritelist a) obj of
        Inl e \<Rightarrow> Inl e
      | Inr sl \<Rightarrow>
          (case spritesdict a (sclass (h obj)) of
             None \<Rightarrow> Inl KeyError
           | Some bucket \<Rightarrow>
               (case list_remove bucket obj of
                  Inl e \<Rightarrow> Inl e
                | Inr bucket' \<Rightarrow>
                    Inr (a\<lparr>spritelist := sl,
                           spritesdict := (spritesdict a)(sclass (h obj) \<mapsto> bucket')\<rparr>))))"

text \<open>
  \<open>Sprite.destroy\<close> is \<open>App._remove(self)\<close> followed by the destruction of the display
  object, which is the renderer's. The loop \<open>for s in list(App.spritelist): s.destroy()\<close>
  of \<open>App._destroy\<close> runs over a copy of the list.
\<close>

fun destroy_sprites :: "heap \<Rightarrow> app \<Rightarrow> ref list \<Rightarrow> error + app" where
  "destroy_sprites h a [] = Inr a"
| "destroy_sprites h a (s # ss) =
     (case App_remove h a s of
        Inl e \<Rightarrow> Inl e
      | Inr a' \<Rightarrow> destroy_sprites h a' ss)"

text \<open>
  \<open>App._destroy\<close>. With a window, the first statement is \<open>App._win.unbind(...)\<close>; on a
  window object without that method it raises \<open>AttributeError\<close> and nothing is reset.
\<close>

definition App_destroy :: "heap \<Rightarrow> app \<Rightarrow> error + app" where
  "App_destroy h a =
     (if (case win a of Some w \<Rightarrow> \<not> has_unbind w | None \<Rightarrow> False) then Inl AttributeError
      else
        (case destroy_sprites h (a\<lparr>win := None\<rparr>) (spritelist a) of
           Inl e \<Rightarrow> Inl e
         | Inr a' \<Rightarrow>
             Inr (a'\<lparr>spritelist := [], spritesdict := Map.empty, eventdict := Map.empty,
                     spritesadded := False\<rparr>)))"

definition listenKeyEvent :: "app \<Rightarrow> string \<Rightarrow> keysel \<Rightarrow> callback \<Rightarrow> app" where
  "listenKeyEvent a eventtype k cb =
     (let evtlist = get_list (eventdict a) (KeyEvt eventtype k);
          evtlist' = (if cb \<in> set evtlist then evtlist else evtlist @ [cb])
      in a\<lparr>eventdict := (eventdict a)(KeyEvt eventtype k \<mapsto> evtlist')\<rparr>)"

definition listenMouseEvent :: "app \<Rightarrow> string \<Rightarrow> callback \<Rightarrow> app" where
  "listenMouseEvent a eventtype cb =
     (let evtlist = get_list (eventdict a) (MouseEvt eventtype);
          evtlist' = (if cb \<in> set evtlist then evtlist else evtlist @ [cb])
      in a\<lparr>eventdict := (eventdict a)(MouseEvt eventtype \<mapsto> evtlist')\<rparr>)"

text \<open>
  What one call of \<open>App._keyEvent\<close> did: the exception it raised, if any, the callbacks it
  invoked, in order, and \<open>App\<close> afterwards.
\<close>

record dispatch =
  raised :: "error option"
  invoked :: "callback list"
  app_after :: app

text \<open>
  \<open>App._keyEvent\<close>. \<open>_eventdict.get(k, [])\<close> returns the very list stored under \<open>k\<close> when
  there is one, and \<open>evtlist.extend(...)\<close> appends the wildcard callbacks to that list in
  place: the dictionary entry grows with it. With no entry the list is a fresh one.
\<close>

definition keyEvent :: "callbacks \<Rightarrow> app \<Rightarrow> hwevent \<Rightarrow> dispatch" where
  "keyEvent env a hw =
     (let k = KeyEvt (hw_type hw)
                (case KeyEvent_keys (keyCode hw) of Some name \<Rightarrow> KeyName name | None \<Rightarrow> KeyNum 0);
          evtlist = get_list (eventdict a) k @
                    get_list (eventdict a) (KeyEvt (hw_type hw) (KeyName ''*''));
          a' = (case eventdict a k of
                  Some l \<Rightarrow> a\<lparr>eventdict := (eventdict a)(k \<mapsto> evtlist)\<rparr>
                | None \<Rightarrow> a)
      in if length evtlist > 0 then
           (case KeyEvent_init hw of
              Inl e \<Rightarrow> \<lparr>raised = Some e, invoked = [], app_after = a'\<rparr>
            | Inr evt \<Rightarrow>
                \<lparr>raised = None, invoked = snd (routeEvent env evt evtlist), app_after = a'\<rparr>)
         else \<lparr>raised = None, invoked = [], app_after = a'\<rparr>)"

section \<open>The selection of the careful test, as documented and as coded\<close>

text \<open>
  The selection by the pair of \<open>edgedef\<close> kinds, in the words of the specification
  (section 4.2, step 4): circle against circle when both are circles, circle against
  polygon when exactly one is, polygon against polygon otherwise.
\<close>

definition narrow_by_edgedef :: "sprite \<Rightarrow> sprite \<Rightarrow> narrow" where
  "narrow_by_edgedef s ob =
     (if is_CircleAsset (edgedef s) \<and> is_CircleAsset (edgedef ob) then CircleWithCircle
      else if is_CircleAsset (edgedef s) \<or> is_CircleAsset (edgedef ob) then CircleWithPoly
      else PolyWithPoly)"

text \<open>The same selection by the pair of \<open>asset\<close> kinds.\<close>

definition narrow_by_asset :: "sprite \<Rightarrow> sprite \<Rightarrow> narrow" where
  "narrow_by_asset s ob =
     (if is_CircleAsset (asset s) \<and> is_CircleAsset (asset ob) then CircleWithCircle
      else if is_CircleAsset (asset s) \<or> is_CircleAsset (asset ob) then CircleWithPoly
      else PolyWithPoly)"

section \<open>Example objects\<close>

text \<open>
  The sprite that \<open>Sprite(RectangleAsset(w, h), pos)\<close> constructs when the display object
  is \<open>w\<close> by \<open>h\<close> (lemma \<open>Sprite_init_rectangle\<close>).
\<close>

definition rect_sprite :: "real \<Rightarrow> real \<Rightarrow> real \<times> real \<Rightarrow> sprite" where
  "rect_sprite w h pos =
     \<lparr>sclass = ''Sprite'', asset = RectangleAsset w h, edgedef = RectangleAsset w h,
      GFX = (GFX_Sprite w h)\<lparr>position := pos\<rparr>,
      xmin = fst pos, xmax = fst pos + w, ymin = snd pos, ymax = snd pos + h,
      extentsdirty = False, basevertices = corners w h,
      absolutevertices =
        [(fst pos, snd pos), (fst pos, snd pos + h), (fst pos + w, snd pos + h),
         (fst pos + w, snd pos)]\<rparr>"

text \<open>
  A circle sprite of radius \<open>r\<close> with scale 1, the default anchor, a display object as wide
  and as high as the diameter, and clean extents: its box has the upper left corner \<open>pos\<close>
  and the side \<open>2 * r\<close>, so its centre is \<open>pos + (r, r)\<close>. In exact arithmetic it is the
  sprite that \<open>Sprite(CircleAsset(r), pos)\<close> constructs (lemma \<open>Sprite_init_circle\<close>); for
  the radii used below, 50, 55 and 75, the float products of the code are
  just above \<open>r\<close> and exactly \<open>-r\<close> (\<open>75.00000000000001\<close> and \<open>-75.0\<close> for 75), which truncate to
  the same box.
\<close>

definition circle_sprite :: "real \<Rightarrow> real \<times> real \<Rightarrow> sprite" where
  "circle_sprite r pos =
     \<lparr>sclass = ''Sprite'', asset = CircleAsset r, edgedef = CircleAsset r,
      GFX = (GFX_Sprite (2 * r) (2 * r))\<lparr>position := pos\<rparr>,
      xmin = fst pos, xmax = fst pos + 2 * r, ymin = snd pos, ymax = snd pos + 2 * r,
      extentsdirty = False, basevertices = [], absolutevertices = []\<rparr>"

text \<open>
  The sprite that \<open>Sprite(CircleAsset(r), pos, RectangleAsset(2*r, 2*r))\<close> constructs: a
  circle on the screen with a rectangle as its edge definition
  (lemma \<open>Sprite_init_circle_boxed\<close>).
\<close>

definition boxed_circle_sprite :: "real \<Rightarrow> real \<times> real \<Rightarrow> sprite" where
  "boxed_circle_sprite r pos =
     (circle_sprite r pos)
       \<lparr>edgedef := RectangleAsset (2 * r) (2 * r), basevertices := corners (2 * r) (2 * r)\<rparr>"

text \<open>
  The 100 by 100 rectangle at the origin after \<open>rotation = pi / 2\<close> and a refresh of its
  extents (lemma \<open>quarter_turned_refreshed\<close>).
\<close>

definition quarter_turned :: sprite where
  "quarter_turned =
     (set_rotation (rect_sprite 100 100 (0, 0)) (pi / 2))
       \<lparr>absolutevertices := [(0, 0), (100, 0), (100, - 100), (0, - 100)],
        xmin := 0, xmax := 100, ymin := - 100, ymax := 0, extentsdirty := False\<rparr>"

text \<open>
  Callbacks of which those in \<open>cs\<close> set \<open>consumed = True\<close> on every event they receive and
  the others leave the event as it is.
\<close>

definition consuming :: "callback list \<Rightarrow> callbacks" where
  "consuming cs c evt = (if c \<in> set cs then evt\<lparr>consumed := True\<rparr> else evt)"

text \<open>The cached extents \<open>(xmin, xmax, ymin, ymax)\<close> of a sprite, if there is one.\<close>

definition extents_of :: "error + sprite \<Rightarrow> (real \<times> real \<times> real \<times> real) option" where
  "extents_of r = (case r of Inl e \<Rightarrow> None | Inr s \<Rightarrow> Some (xmin s, xmax s, ymin s, ymax s))"

text \<open>
  The registry as \<open>App._add\<close> and \<open>App._remove\<close> keep it: the bucket of a class lists the
  sprites of that class in the order of \<open>spritelist\<close>.
\<close>

definition registry_ok :: "heap \<Rightarrow> app \<Rightarrow> bool" where
  "registry_ok h a =
     (\<forall>c. get_list (spritesdict a) c = filter (\<lambda>r. sclass (h r) = c) (spritelist a))"

text \<open>The heap with sprite \<open>s0\<close> behind reference 0 and \<open>s1\<close> behind every other one.\<close>

definition two_sprites :: "sprite \<Rightarrow> sprite \<Rightarrow> heap" where
  "two_sprites s0 s1 = (\<lambda>r. if r = 0 then s0 else s1)"

section \<open>Constructing sprites\<close>

text \<open>\<open>int\<close> is odd: truncation towards zero commutes with the sign.\<close>

lemma py_int_minus: "py_int (- v) = - py_int v"
  by (cases "v = 0") (auto simp: py_int_def ceiling_def)

text \<open>
  With the default anchor \<open>(0,0)\<close> and no rotation the angle of the circle formula is
  \<open>-pi/4\<close> and the length \<open>L\<close> is \<open>D / sqrt 2\<close>, so \<open>L * cos th\<close> is half the diameter.
  The lemmas on the refresh and the construction of a circle that follow are about the
  exact product; the box of the code can lie one pixel beside it (see \<open>setExtents\<close>).
\<close>

lemma atan2_default_anchor: "atan2 (0 - 1 / 2) (1 / 2 - 0) = - (pi / 4)"
  by (simp add: atan2_def arctan_minus arctan_one)

lemma sqrt_half: "sqrt ((0 - 1 / 2) ^ 2 + (0 - 1 / 2) ^ 2) = sqrt 2 / 2"
  by (rule real_sqrt_unique) (simp_all add: power2_eq_square)

lemma default_anchor_cos: "sqrt 2 / 2 * D * cos (- (pi / 4)) = D / 2"
  by (simp add: cos_45)

lemma default_anchor_sin: "sqrt 2 / 2 * D * sin (- (pi / 4)) = - (D / 2)"
  by (simp add: sin_45)

lemma setExtents_circle_default:
  assumes "is_CircleAsset (asset s)" and "extentsdirty s"
    and "anchor (GFX s) = Some (0, 0)" and "grotation (GFX s) = Some 0"
    and "0 \<le> get_width s"
  shows "setExtents s =
           Inr (s\<lparr>xmin := get_x s, ymin := get_y s, xmax := get_x s + get_width s,
                  ymax := get_y s + get_width s, extentsdirty := False\<rparr>)"
proof -
  have th: "atan2 (get_fycenter s - 1 / 2) (1 / 2 - get_fxcenter s) + get_rotation s = - (pi / 4)"
    using assms atan2_default_anchor
    by (simp add: get_fxcenter_def get_fycenter_def get_rotation_def)
  have L: "sqrt ((get_fxcenter s - 1 / 2) ^ 2 + (get_fycenter s - 1 / 2) ^ 2) = sqrt 2 / 2"
    using assms sqrt_half by (simp add: get_fxcenter_def get_fycenter_def)
  show ?thesis
    using assms
    unfolding setExtents_def th L Let_def default_anchor_cos default_anchor_sin py_int_minus
    by (simp add: py_int_def floordiv_def)
qed

lemma setExtents_clean: "\<not> extentsdirty s \<Longrightarrow> setExtents s = Inr s"
  by (simp add: setExtents_def)

lemma Sprite_init_circle:
  assumes "0 \<le> r"
  shows "Sprite_init ''Sprite'' (GFX_Sprite (2 * r) (2 * r)) (CircleAsset r) pos None
           = Inr (circle_sprite r pos)"
proof -
  let ?s = "createBaseVertices
              ((set_position
                 \<lparr>sclass = ''Sprite'', asset = CircleAsset r, edgedef = CircleAsset r,
                  GFX = GFX_Sprite (2 * r) (2 * r), xmin = 0, xmax = 0, ymin = 0, ymax = 0,
                  extentsdirty = True, basevertices = [], absolutevertices = []\<rparr> pos)
               \<lparr>extentsdirty := True\<rparr>)"
  have "setExtents ?s =
          Inr (?s\<lparr>xmin := get_x ?s, ymin := get_y ?s, xmax := get_x ?s + get_width ?s,
                  ymax := get_y ?s + get_width ?s, extentsdirty := False\<rparr>)"
    using assms
    by (intro setExtents_circle_default)
       (simp_all add: set_position_def set_x_def set_y_def GFX_Sprite_def get_width_def Let_def)
  then show ?thesis
    by (simp add: Sprite_init_def Let_def circle_sprite_def set_position_def set_x_def
        set_y_def GFX_Sprite_def get_width_def get_x_def get_y_def)
qed

lemma Sprite_init_circle_boxed:
  assumes "0 \<le> r"
  shows "Sprite_init ''Sprite'' (GFX_Sprite (2 * r) (2 * r)) (CircleAsset r) pos
           (Some (RectangleAsset (2 * r) (2 * r)))
           = Inr (boxed_circle_sprite r pos)"
proof -
  let ?s = "createBaseVertices
              ((set_position
                 \<lparr>sclass = ''Sprite'', asset = CircleAsset r,
                  edgedef = RectangleAsset (2 * r) (2 * r),
                  GFX = GFX_Sprite (2 * r) (2 * r), xmin = 0, xmax = 0, ymin = 0, ymax = 0,
                  extentsdirty = True, basevertices = [], absolutevertices = []\<rparr> pos)
               \<lparr>extentsdirty := True\<rparr>)"
  have "setExtents ?s =
          Inr (?s\<lparr>xmin := get_x ?s, ymin := get_y ?s, xmax := get_x ?s + get_width ?s,
                  ymax := get_y ?s + get_width ?s, extentsdirty := False\<rparr>)"
    using assms
    by (intro setExtents_circle_default)
       (simp_all add: set_position_def set_x_def set_y_def GFX_Sprite_def get_width_def Let_def)
  then show ?thesis
    by (simp add: Sprite_init_def Let_def circle_sprite_def boxed_circle_sprite_def
        set_position_def set_x_def set_y_def GFX_Sprite_def get_width_def get_x_def get_y_def)
qed

lemma Sprite_init_rectangle:
  assumes "0 \<le> w" and "0 \<le> h"
  shows "Sprite_init ''Sprite'' (GFX_Sprite w h) (RectangleAsset w h) pos None
           = Inr (rect_sprite w h pos)"
  using assms
  by (simp add: Sprite_init_def Let_def rect_sprite_def set_position_def set_x_def set_y_def
      GFX_Sprite_def setExtents_def xformVertices_def corners_def py_min_def py_max_def
      get_scale_def get_rotation_def get_width_def get_height_def get_fxcenter_def
      get_fycenter_def get_x_def get_y_def)

text \<open>
  A sprite with a circle as edge definition has no base vertex. When its asset is not a
  circle the constructor takes the vertex branch of \<open>_setExtents\<close> and raises: the
  example of the constructor's documentation, an image with \<open>CircleAsset(50)\<close> as
  \<open>edgedef\<close>, cannot be built.
\<close>

lemma Sprite_init_circle_edgedef_raises:
  assumes "\<not> is_CircleAsset a"
  shows "Sprite_init cls (GFX_Sprite w h) a pos (Some (CircleAsset r)) = Inl ValueError"
  using assms
  by (simp add: Sprite_init_def Let_def set_position_def set_x_def set_y_def GFX_Sprite_def
      setExtents_def xformVertices_def get_scale_def)

section \<open>Properties of sprites\<close>

text \<open>
  C9. A sprite never collides with itself: \<open>collidingWith\<close> on one and the same object
  answers \<open>False\<close>, whatever the sprite's asset, transform and extents are, without
  running any test and without touching the heap.
\<close>

theorem collidingWith_self: "collidingWith h a a = Inr (False, None, h)"
  by (simp add: collidingWith_def)

text \<open>
  C7. Moving a sprite by \<open>(dx, dy)\<close> through its \<open>x\<close>, \<open>y\<close> or \<open>position\<close> setter adds \<open>dx\<close>
  to the cached \<open>xmin\<close> and \<open>xmax\<close> and \<open>dy\<close> to the cached \<open>ymin\<close> and \<open>ymax\<close>, stores the
  new position in the display object, and changes nothing else: the dirty flag, scale,
  rotation, anchor, size, assets and vertex lists are as before.
\<close>

theorem translate_shifts_extents:
  "set_x s (get_x s + dx) =
     s\<lparr>xmax := xmax s + dx, xmin := xmin s + dx,
       GFX := (GFX s)\<lparr>position := (get_x s + dx, get_y s)\<rparr>\<rparr>
   \<and> set_y s (get_y s + dy) =
     s\<lparr>ymax := ymax s + dy, ymin := ymin s + dy,
       GFX := (GFX s)\<lparr>position := (get_x s, get_y s + dy)\<rparr>\<rparr>
   \<and> set_position s (get_x s + dx, get_y s + dy) =
     s\<lparr>xmin := xmin s + dx, xmax := xmax s + dx, ymin := ymin s + dy, ymax := ymax s + dy,
       GFX := (GFX s)\<lparr>position := (get_x s + dx, get_y s + dy)\<rparr>\<rparr>
   \<and> extentsdirty (set_position s (get_x s + dx, get_y s + dy)) = extentsdirty s
   \<and> get_scale (set_position s (get_x s + dx, get_y s + dy)) = get_scale s
   \<and> get_rotation (set_position s (get_x s + dx, get_y s + dy)) = get_rotation s
   \<and> get_center (set_position s (get_x s + dx, get_y s + dy)) = get_center s
   \<and> get_width (set_position s (get_x s + dx, get_y s + dy)) = get_width s
   \<and> get_height (set_position s (get_x s + dx, get_y s + dy)) = get_height s"
  by (simp add: set_position_def set_x_def set_y_def get_x_def get_y_def Let_def
      get_scale_def get_rotation_def get_center_def get_width_def get_height_def)

theorem translate_shifts_extents_witness:
  "set_position (rect_sprite 100 100 (10, 10)) (10 + 5, 10 + 7) =
     (rect_sprite 100 100 (10, 10))
       \<lparr>xmin := 10 + 5, xmax := 110 + 5, ymin := 10 + 7, ymax := 110 + 7,
        GFX := (GFX (rect_sprite 100 100 (10, 10)))\<lparr>position := (10 + 5, 10 + 7)\<rparr>\<rparr>
   \<and> extentsdirty (set_position (rect_sprite 100 100 (10, 10)) (10 + 5, 10 + 7)) = False"
  using translate_shifts_extents [of "rect_sprite 100 100 (10, 10)" 5 7]
  by (simp add: rect_sprite_def get_x_def get_y_def GFX_Sprite_def)

text \<open>
  C6. For two different sprites whose refreshed boxes do not overlap, \<open>collidingWith\<close>
  answers \<open>False\<close> and runs none of the careful tests; the heap holds the refreshed
  sprites.
\<close>

theorem disjoint_boxes_skip_narrow:
  assumes "a \<noteq> b"
    and "setExtents (h a) = Inr sa"
    and "setExtents (h b) = Inr sb"
    and "xmin sa > xmax sb \<or> xmax sa < xmin sb \<or> ymin sa > ymax sb \<or> ymax sa < ymin sb"
  shows "collidingWith h a b = Inr (False, None, h(a := sa, b := sb))"
  using assms by (simp add: collidingWith_def)

theorem disjoint_boxes_skip_narrow_witness:
  "collidingWith
     (two_sprites (rect_sprite 100 100 (0, 0)) (circle_sprite 50 (200, 0))) 0 1
   = Inr (False, None,
          (two_sprites (rect_sprite 100 100 (0, 0)) (circle_sprite 50 (200, 0)))
            (0 := rect_sprite 100 100 (0, 0), 1 := circle_sprite 50 (200, 0)))"
proof (rule disjoint_boxes_skip_narrow)
  show "(0::nat) \<noteq> 1" by simp
  show "setExtents
          (two_sprites (rect_sprite 100 100 (0, 0)) (circle_sprite 50 (200, 0)) 0)
        = Inr (rect_sprite 100 100 (0, 0))"
    by (simp add: two_sprites_def setExtents_clean rect_sprite_def)
  show "setExtents
          (two_sprites (rect_sprite 100 100 (0, 0)) (circle_sprite 50 (200, 0)) 1)
        = Inr (circle_sprite 50 (200, 0))"
    by (simp add: two_sprites_def setExtents_clean circle_sprite_def)
  show "xmin (rect_sprite 100 100 (0, 0)) > xmax (circle_sprite 50 (200, 0))
      \<or> xmax (rect_sprite 100 100 (0, 0)) < xmin (circle_sprite 50 (200, 0))
      \<or> ymin (rect_sprite 100 100 (0, 0)) > ymax (circle_sprite 50 (200, 0))
      \<or> ymax (rect_sprite 100 100 (0, 0)) < ymin (circle_sprite 50 (200, 0))"
    by (simp add: rect_sprite_def circle_sprite_def)
qed

text \<open>
  C3. A 100 by 100 rectangle sprite at \<open>(10,10)\<close>, scale 1, rotation 0: after
  \<open>center = (0.5, 0.5)\<close> and a refresh of the extents the box is not \<open>xmin = 10\<close>,
  \<open>xmax = 110\<close>. The position now names the middle of the rectangle and the box runs
  from \<open>-40\<close> to \<open>60\<close> on both axes; before the assignment it ran from 10 to 110.
\<close>

theorem anchor_roundtrip_counterexample:
  "extents_of (Inr (rect_sprite 100 100 (10, 10))) = Some (10, 110, 10, 110)
   \<and> extents_of (setExtents (set_center (rect_sprite 100 100 (10, 10)) (1 / 2, 1 / 2)))
       = Some (- 40, 60, - 40, 60)"
  by (simp add: extents_of_def set_center_def rect_sprite_def GFX_Sprite_def setExtents_def
      xformVertices_def corners_def py_min_def py_max_def get_scale_def get_rotation_def
      get_width_def get_height_def get_fxcenter_def get_fycenter_def get_x_def get_y_def
      Let_def)

text \<open>
  C3, amended. For a \<open>w\<close> by \<open>h\<close> rectangle sprite at \<open>(px, py)\<close> with scale 1 and rotation
  0, setting the anchor to \<open>(fx, fy)\<close> and refreshing the extents gives
  \<open>xmin = px - w * fx\<close>, \<open>xmax = px + w - w * fx\<close>, \<open>ymin = py - h * fy\<close> and
  \<open>ymax = py + h - h * fy\<close>: the anchor shifts the box of an unrotated, unscaled shape.
  For the 100 by 100 rectangle at \<open>(10,10)\<close> and the anchor \<open>(0.5, 0.5)\<close> that is
  \<open>xmin = -40\<close> and \<open>xmax = 60\<close>.
\<close>

theorem anchor_shifts_extents:
  assumes "0 \<le> w" and "0 \<le> h"
  shows "setExtents (set_center (rect_sprite w h (px, py)) (fx, fy)) =
           Inr ((set_center (rect_sprite w h (px, py)) (fx, fy))
                  \<lparr>absolutevertices :=
                     [(px - w * fx, py - h * fy), (px - w * fx, py + h - h * fy),
                      (px + w - w * fx, py + h - h * fy), (px + w - w * fx, py - h * fy)],
                   xmin := px - w * fx, xmax := px + w - w * fx,
                   ymin := py - h * fy, ymax := py + h - h * fy,
                   extentsdirty := False\<rparr>)"
  using assms
  by (simp add: set_center_def rect_sprite_def GFX_Sprite_def setExtents_def xformVertices_def
      corners_def py_min_def py_max_def get_scale_def get_rotation_def get_width_def
      get_height_def get_fxcenter_def get_fycenter_def get_x_def get_y_def Let_def
      algebra_simps)

theorem anchor_shifts_extents_witness:
  "setExtents (set_center (rect_sprite 100 100 (10, 10)) (1 / 2, 1 / 2)) =
           Inr ((set_center (rect_sprite 100 100 (10, 10)) (1 / 2, 1 / 2))
                  \<lparr>absolutevertices := [(- 40, - 40), (- 40, 60), (60, 60), (60, - 40)],
                   xmin := - 40, xmax := 60, ymin := - 40, ymax := 60,
                   extentsdirty := False\<rparr>)"
  using anchor_shifts_extents [of 100 100 10 10 "1 / 2" "1 / 2"] by simp

subsection \<open>Collisions of sprites with clean extents\<close>

lemma two_sprites_simps:
  "two_sprites s0 s1 0 = s0" "two_sprites s0 s1 1 = s1" "two_sprites s0 s1 (Suc n) = s1"
  by (simp_all add: two_sprites_def)

lemma circle_sprite_fields:
  "asset (circle_sprite r pos) = CircleAsset r"
  "extentsdirty (circle_sprite r pos) = False"
  "get_width (circle_sprite r pos) = 2 * r"
  "xmin (circle_sprite r pos) = fst pos" "xmax (circle_sprite r pos) = fst pos + 2 * r"
  "ymin (circle_sprite r pos) = snd pos" "ymax (circle_sprite r pos) = snd pos + 2 * r"
  by (simp_all add: circle_sprite_def get_width_def GFX_Sprite_def)

text \<open>
  With clean extents on both sides nothing is refreshed and the heap stays as it is; the
  careful test, when one runs, is the one for the pair of \<open>asset\<close> kinds.
\<close>

lemma collidingWith_clean:
  assumes "a \<noteq> b" and "\<not> extentsdirty (h a)" and "\<not> extentsdirty (h b)"
  shows "collidingWith h a b =
     (if xmin (h a) > xmax (h b) \<or> xmax (h a) < xmin (h b)
         \<or> ymin (h a) > ymax (h b) \<or> ymax (h a) < ymin (h b)
      then Inr (False, None, h)
      else if is_CircleAsset (asset (h a)) \<and> is_CircleAsset (asset (h b))
      then Inr (sqrt (((xmin (h a) + xmax (h a)) / 2 - (xmin (h b) + xmax (h b)) / 2) ^ 2
                    + ((ymin (h a) + ymax (h a)) / 2 - (ymin (h b) + ymax (h b)) / 2) ^ 2)
                  \<le> get_width (h a) / 2 + get_width (h b) / 2,
                Some CircleWithCircle, h)
      else Inr (True, Some (narrow_by_asset (h a) (h b)), h))"
proof -
  have ea: "setExtents (h a) = Inr (h a)" and eb: "setExtents (h b) = Inr (h b)"
    using assms by (simp_all add: setExtents_clean)
  have heap: "h(a := h a, b := h b) = h" by simp
  show ?thesis
    using assms(1) ea eb
    by (simp add: collidingWith_def Let_def narrow_by_asset_def collidingCircleWithPoly_def
        collidingPolyWithPoly_def)
qed




subsection \<open>The careful test and the edge definition\<close>

lemma boxed_circle_sprite_fields:
  "asset (boxed_circle_sprite r pos) = CircleAsset r"
  "edgedef (boxed_circle_sprite r pos) = RectangleAsset (2 * r) (2 * r)"
  "extentsdirty (boxed_circle_sprite r pos) = False"
  "get_width (boxed_circle_sprite r pos) = 2 * r"
  "xmin (boxed_circle_sprite r pos) = fst pos" "xmax (boxed_circle_sprite r pos) = fst pos + 2 * r"
  "ymin (boxed_circle_sprite r pos) = snd pos" "ymax (boxed_circle_sprite r pos) = snd pos + 2 * r"
  by (simp_all add: boxed_circle_sprite_def circle_sprite_def get_width_def GFX_Sprite_def)

text \<open>
  What the code does: for two different sprites whose refreshed boxes overlap, the careful
  test is the one for the pair of \<open>asset\<close> kinds. It is the one for the pair of \<open>edgedef\<close>
  kinds when each sprite's edge definition is of the kind of its asset, as it is when no
  \<open>edgedef\<close> was given.
\<close>

lemma narrow_selected_by_asset:
  assumes "a \<noteq> b"
    and "setExtents (h a) = Inr sa"
    and "setExtents (h b) = Inr sb"
    and "\<not> (xmin sa > xmax sb \<or> xmax sa < xmin sb \<or> ymin sa > ymax sb \<or> ymax sa < ymin sb)"
  shows "\<exists>answer. collidingWith h a b =
           Inr (answer, Some (narrow_by_asset sa sb), h(a := sa, b := sb))"
  using assms
  by (simp add: collidingWith_def Let_def narrow_by_asset_def)

lemma narrow_by_asset_default_edgedef:
  assumes "is_CircleAsset (edgedef sa) = is_CircleAsset (asset sa)"
    and "is_CircleAsset (edgedef sb) = is_CircleAsset (asset sb)"
  shows "narrow_by_asset sa sb = narrow_by_edgedef sa sb"
  using assms by (simp add: narrow_by_asset_def narrow_by_edgedef_def)

text \<open>
  C1. Two sprites built as \<open>Sprite(CircleAsset(50), pos, RectangleAsset(100, 100))\<close>, at
  \<open>(0,0)\<close> and at \<open>(90,90)\<close>: their boxes overlap and both edge definitions are rectangles,
  so the test selected by the edge definitions is polygon against polygon. The code runs
  the circle against circle test, which answers \<open>False\<close>.
\<close>

theorem edgedef_ignored_by_dispatch:
  "collidingWith
     (two_sprites (boxed_circle_sprite 50 (0, 0)) (boxed_circle_sprite 50 (90, 90))) 0 1
     = Inr (False, Some CircleWithCircle,
            two_sprites (boxed_circle_sprite 50 (0, 0)) (boxed_circle_sprite 50 (90, 90)))
   \<and> narrow_by_edgedef (boxed_circle_sprite 50 (0, 0)) (boxed_circle_sprite 50 (90, 90))
     = PolyWithPoly"
proof -
  have d: "\<not> sqrt 16200 \<le> 100"
    using real_less_rsqrt [of 100 16200] by simp
  show ?thesis
    using d
    by (simp add: collidingWith_clean two_sprites_simps boxed_circle_sprite_fields
        narrow_by_edgedef_def)
qed

subsection \<open>The dirty flag\<close>

text \<open>
  The setters of width, height and scale mark the extents dirty for every value; the
  anchor setters do on a display object that has an anchor, and change nothing on one
  that has none; the rotation setter does for every value but zero.
\<close>

lemma setters_mark_dirty:
  "extentsdirty (set_width s v)"
  "extentsdirty (set_height s v)"
  "set_scale s v = Inr s' \<Longrightarrow> extentsdirty s'"
  "anchor (GFX s) \<noteq> None \<Longrightarrow> extentsdirty (set_fxcenter s v)"
  "anchor (GFX s) \<noteq> None \<Longrightarrow> extentsdirty (set_fycenter s v)"
  "anchor (GFX s) \<noteq> None \<Longrightarrow> extentsdirty (set_center s c)"
  "v \<noteq> 0 \<Longrightarrow> extentsdirty (set_rotation s v)"
  by (auto simp: set_width_def set_height_def set_scale_def set_fxcenter_def set_fycenter_def
      set_center_def set_rotation_def Let_def split: option.splits)

lemma anchor_setters_without_anchor:
  "anchor (GFX s) = None \<Longrightarrow> set_fxcenter s v = s"
  "anchor (GFX s) = None \<Longrightarrow> set_fycenter s v = s"
  "anchor (GFX s) = None \<Longrightarrow> set_center s c = s"
  by (simp_all add: set_fxcenter_def set_fycenter_def set_center_def)

lemma rotation_zero_keeps_flag: "extentsdirty (set_rotation s 0) = extentsdirty s"
  by (simp add: set_rotation_def)

lemma quarter_turned_refreshed:
  "setExtents (set_rotation (rect_sprite 100 100 (0, 0)) (pi / 2)) = Inr quarter_turned"
  by (simp add: quarter_turned_def set_rotation_def rect_sprite_def GFX_Sprite_def
      setExtents_def xformVertices_def corners_def py_min_def py_max_def get_scale_def
      get_rotation_def get_width_def get_height_def get_fxcenter_def get_fycenter_def
      get_x_def get_y_def Let_def)

text \<open>
  C4. The 100 by 100 rectangle at the origin, turned by \<open>pi / 2\<close> and refreshed, has the
  box \<open>(0, 100, -100, 0)\<close> and a clean flag. Assigning \<open>rotation = 0.0\<close> stores the
  rotation and leaves the flag clean, so a refresh keeps the box of the quarter turn;
  the box of the sprite as it now stands, computed with the flag set, is
  \<open>(0, 100, 0, 100)\<close>.
\<close>

theorem rotation_zero_keeps_stale_extents:
  "extentsdirty (set_rotation quarter_turned 0) = False
   \<and> get_rotation (set_rotation quarter_turned 0) = 0
   \<and> extents_of (setExtents (set_rotation quarter_turned 0)) = Some (0, 100, - 100, 0)
   \<and> extents_of (setExtents ((set_rotation quarter_turned 0)\<lparr>extentsdirty := True\<rparr>))
       = Some (0, 100, 0, 100)"
  by (simp add: quarter_turned_def set_rotation_def rect_sprite_def GFX_Sprite_def
      setExtents_def xformVertices_def corners_def py_min_def py_max_def get_scale_def
      get_rotation_def get_width_def get_height_def get_fxcenter_def get_fycenter_def
      get_x_def get_y_def Let_def extents_of_def)

section \<open>Properties of the event dispatch\<close>

text \<open>
  C10. A keyboard event whose key code is not in \<open>KeyEvent.keys\<close>, with at least one
  callback subscribed under \<open>'*'\<close> for its event type: the dispatch raises \<open>KeyError\<close>
  while it builds the \<open>KeyEvent\<close>, and no callback is invoked.
\<close>

theorem unmapped_key_raises:
  assumes "KeyEvent_keys (keyCode hw) = None"
    and "get_list (eventdict a) (KeyEvt (hw_type hw) (KeyName ''*'')) \<noteq> []"
  shows "raised (keyEvent env a hw) = Some KeyError \<and> invoked (keyEvent env a hw) = []"
  using assms by (simp add: keyEvent_def KeyEvent_init_def Let_def)

theorem unmapped_key_raises_witness:
  "raised (keyEvent (consuming []) (listenKeyEvent initial_app ''keydown'' (KeyName ''*'') 7)
             \<lparr>hw_type = ''keydown'', keyCode = 0\<rparr>) = Some KeyError
   \<and> invoked (keyEvent (consuming []) (listenKeyEvent initial_app ''keydown'' (KeyName ''*'') 7)
             \<lparr>hw_type = ''keydown'', keyCode = 0\<rparr>) = []"
  by (rule unmapped_key_raises)
     (simp_all add: KeyEvent_keys_def listenKeyEvent_def initial_app_def get_list_def)

lemma key_65: "KeyEvent_keys 65 = Some ''a''"
  by (simp add: KeyEvent_keys_def)

lemma keydown_subscriptions:
  "eventdict (listenKeyEvent (listenKeyEvent initial_app ''keydown'' (KeyName ''a'') 5)
                ''keydown'' (KeyName ''*'') 9) (KeyEvt ''keydown'' (KeyName ''a'')) = Some [5]"
  "eventdict (listenKeyEvent (listenKeyEvent initial_app ''keydown'' (KeyName ''a'') 5)
                ''keydown'' (KeyName ''*'') 9) (KeyEvt ''keydown'' (KeyName ''*'')) = Some [9]"
  by (simp_all add: listenKeyEvent_def initial_app_def get_list_def Let_def)

text \<open>
  C2. Callback 5 listens to \<open>keydown\<close> of the key \<open>a\<close> and marks every event consumed;
  callback 9 listens to \<open>keydown\<close> of \<open>'*'\<close>. A \<open>keydown\<close> of \<open>a\<close> (key code 65) invokes
  the wildcard callback 9, and invokes it first.
\<close>

theorem specific_consumes_counterexample:
  "invoked (keyEvent (consuming [5])
            (listenKeyEvent (listenKeyEvent initial_app ''keydown'' (KeyName ''*'') 9)
               ''keydown'' (KeyName ''a'') 5)
            \<lparr>hw_type = ''keydown'', keyCode = 65\<rparr>) = [9, 5]"
  by (simp add: keyEvent_def KeyEvent_init_def Let_def get_list_def routeEvent_def key_65
      listenKeyEvent_def initial_app_def consuming_def)

text \<open>
  C2, amended. With one callback \<open>cs\<close> subscribed for a key and one callback \<open>cw\<close>
  subscribed for \<open>'*'\<close> on the same event type, an event of that type for that key
  invokes the wildcard callback first, whatever the key's callback does to events; the
  key's callback is invoked after it exactly when the wildcard callback has left the
  event unconsumed. The list walked is the key's callbacks followed by the wildcard
  ones, reversed.
\<close>

theorem wildcard_runs_first:
  assumes "KeyEvent_keys (keyCode hw) = Some name"
    and "eventdict a (KeyEvt (hw_type hw) (KeyName name)) = Some [cs]"
    and "eventdict a (KeyEvt (hw_type hw) (KeyName ''*'')) = Some [cw]"
  shows "raised (keyEvent env a hw) = None
       \<and> invoked (keyEvent env a hw) =
           (if consumed (env cw \<lparr>ev_type = hw_type hw, consumed = False,
                                 keynum = keyCode hw, ev_key = name\<rparr>)
            then [cw] else [cw, cs])"
  using assms
  by (simp add: keyEvent_def KeyEvent_init_def Let_def get_list_def routeEvent_def)

theorem wildcard_runs_first_witness:
  "raised (keyEvent (consuming [5])
            (listenKeyEvent (listenKeyEvent initial_app ''keydown'' (KeyName ''a'') 5)
               ''keydown'' (KeyName ''*'') 9)
            \<lparr>hw_type = ''keydown'', keyCode = 65\<rparr>) = None
   \<and> invoked (keyEvent (consuming [5])
            (listenKeyEvent (listenKeyEvent initial_app ''keydown'' (KeyName ''a'') 5)
               ''keydown'' (KeyName ''*'') 9)
            \<lparr>hw_type = ''keydown'', keyCode = 65\<rparr>) = [9, 5]"
  using wildcard_runs_first [of "\<lparr>hw_type = ''keydown'', keyCode = 65\<rparr>" "''a''"
      "listenKeyEvent (listenKeyEvent initial_app ''keydown'' (KeyName ''a'') 5)
               ''keydown'' (KeyName ''*'') 9" 5 9 "consuming [5]"]
  by (simp add: key_65 keydown_subscriptions consuming_def)

text \<open>
  A side effect of the dispatch: the wildcard callbacks are appended to the list stored
  under the key, so the subscription list of a key grows with every event for it.
\<close>

lemma keyEvent_grows_subscription:
  assumes "KeyEvent_keys (keyCode hw) = Some name"
    and "eventdict a (KeyEvt (hw_type hw) (KeyName name)) = Some l"
  shows "eventdict (app_after (keyEvent env a hw)) (KeyEvt (hw_type hw) (KeyName name))
           = Some (l @ get_list (eventdict a) (KeyEvt (hw_type hw) (KeyName ''*'')))"
  using assms
  by (simp add: keyEvent_def KeyEvent_init_def Let_def get_list_def split: sum.splits)

section \<open>Properties of the registry\<close>

lemma registry_ok_initial: "registry_ok h initial_app"
  by (simp add: registry_ok_def initial_app_def get_list_def)

lemma registry_ok_add: "registry_ok h a \<Longrightarrow> registry_ok h (App_add h a obj)"
  by (simp add: registry_ok_def App_add_def get_list_def)

text \<open>Removing the first sprite of the list succeeds on a registry in order.\<close>

lemma App_remove_ok:
  assumes "registry_ok h a" and "spritelist a = s # ss"
  shows "\<exists>a'. App_remove h a s = Inr a' \<and> registry_ok h a' \<and> spritelist a' = ss
              \<and> win a' = win a"
proof -
  let ?c = "sclass (h s)"
  have bucket: "get_list (spritesdict a) ?c = s # filter (\<lambda>r. sclass (h r) = ?c) ss"
    using assms by (simp add: registry_ok_def)
  then obtain b where b: "spritesdict a ?c = Some b" "b = s # filter (\<lambda>r. sclass (h r) = ?c) ss"
    by (cases "spritesdict a ?c") (simp_all add: get_list_def)
  let ?a' = "a\<lparr>spritelist := ss,
                spritesdict := (spritesdict a)(?c \<mapsto> filter (\<lambda>r. sclass (h r) = ?c) ss)\<rparr>"
  have "App_remove h a s = Inr ?a'"
    using assms(2) b by (simp add: App_remove_def list_remove_def)
  moreover have "registry_ok h ?a'"
    using assms by (auto simp: registry_ok_def get_list_def)
  ultimately show ?thesis by auto
qed

text \<open>
  The loop of \<open>App._destroy\<close> runs over a copy of \<open>spritelist\<close> and removes its head each
  time, so the copy that is left is the list that is left.
\<close>

lemma destroy_sprites_ok:
  "registry_ok h a \<Longrightarrow> spritelist a = ss \<Longrightarrow>
     \<exists>a'. destroy_sprites h a ss = Inr a' \<and> win a' = win a"
proof (induction ss arbitrary: a)
  case Nil
  then show ?case by simp
next
  case (Cons s ss)
  from App_remove_ok [OF Cons.prems(1)] Cons.prems(2)
  obtain a1 where a1: "App_remove h a s = Inr a1" "registry_ok h a1" "spritelist a1 = ss"
    "win a1 = win a"
    by auto
  from Cons.IH [OF a1(2) a1(3)]
  obtain a' where "destroy_sprites h a1 ss = Inr a'" "win a' = win a1"
    by auto
  with a1 show ?case by simp
qed

text \<open>
  Without a window, or with a window object that has \<open>unbind\<close>, \<open>App._destroy\<close> returns
  on every registry in order, and \<open>App\<close> is then as it was initially: no sprite, no
  bucket, no subscription, no window. A registration after it is a registration in the
  initial state.
\<close>

lemma destroy_resets:
  assumes "registry_ok h a"
    and "win a = None \<or> (\<exists>w. win a = Some w \<and> has_unbind w)"
  shows "App_destroy h a = Inr initial_app"
proof -
  have ok: "registry_ok h (a\<lparr>win := None\<rparr>)"
    using assms(1) by (simp add: registry_ok_def)
  from destroy_sprites_ok [OF ok, of "spritelist a"]
  obtain a' where a': "destroy_sprites h (a\<lparr>win := None\<rparr>) (spritelist a) = Inr a'"
    "win a' = None"
    by auto
  have "a'\<lparr>spritelist := [], spritesdict := Map.empty, eventdict := Map.empty,
            spritesadded := False\<rparr> = initial_app"
    using a'(2) by (cases a') (simp add: initial_app_def)
  then show ?thesis
    using assms(2) a' by (auto simp: App_destroy_def)
qed

text \<open>Whenever \<open>App._destroy\<close> returns at all, it leaves the initial state.\<close>

lemma App_remove_win: "App_remove h a s = Inr a' \<Longrightarrow> win a' = win a"
  by (auto simp: App_remove_def split: sum.splits option.splits)

lemma destroy_sprites_win: "destroy_sprites h a ss = Inr a' \<Longrightarrow> win a' = win a"
proof (induction ss arbitrary: a)
  case Nil
  then show ?case by simp
next
  case (Cons s ss)
  then show ?case
    by (auto split: sum.splits dest: App_remove_win)
qed

lemma destroy_returns_initial:
  assumes "App_destroy h a = Inr a'"
  shows "a' = initial_app"
proof -
  from assms obtain a1
    where a1: "destroy_sprites h (a\<lparr>win := None\<rparr>) (spritelist a) = Inr a1"
      and a': "a' = a1\<lparr>spritelist := [], spritesdict := Map.empty, eventdict := Map.empty,
                       spritesadded := False\<rparr>"
    by (auto simp: App_destroy_def split: if_splits sum.splits)
  from destroy_sprites_win [OF a1] have "win a1 = None" by simp
  then show ?thesis
    unfolding a' by (cases a1) (simp add: initial_app_def)
qed

lemma add_after_destroy:
  assumes "registry_ok h a"
    and "win a = None \<or> (\<exists>w. win a = Some w \<and> has_unbind w)"
  shows "map_sum id (\<lambda>a'. App_add h a' obj) (App_destroy h a) = Inr (App_add h initial_app obj)"
  using destroy_resets [OF assms] by simp

text \<open>
  C8. A sprite is registered and the application has opened its window, the
  \<open>GFX_Window\<close> of \<open>sysdeps.py\<close>. \<open>App._destroy\<close> raises \<open>AttributeError\<close> at
  \<open>App._win.unbind\<close>, and the sprite list it was to empty still holds the sprite.
\<close>

theorem destroy_with_window_raises:
  "App_destroy (two_sprites (rect_sprite 100 100 (0, 0)) (circle_sprite 50 (200, 0)))
     ((App_add (two_sprites (rect_sprite 100 100 (0, 0)) (circle_sprite 50 (200, 0)))
         initial_app 0)\<lparr>win := Some (GFX_Window 640 480)\<rparr>)
     = Inl AttributeError
   \<and> spritelist
       ((App_add (two_sprites (rect_sprite 100 100 (0, 0)) (circle_sprite 50 (200, 0)))
           initial_app 0)\<lparr>win := Some (GFX_Window 640 480)\<rparr>) = [0]"
  by (simp add: App_destroy_def App_add_def initial_app_def GFX_Window_def)

end
